theory Spec2Isabelle
  imports Complex_Main
begin

section \<open>JavaScript values\<close>

text \<open>
  Number values. \<open>Fin q\<close> is the finite double whose value is the rational \<open>q\<close>; the two
  zeros are not told apart (nothing in the modelled code divides by a zero or compares
  zeros by identity, and both are falsy).
\<close>

datatype jsnum = NaN | PInf | NInf | Fin rat

text \<open>
  Values of the language as far as the modelled scripts handle them. \<open>JRef n\<close> is an
  object of a library or of the host (a class instance, a function, a DOM node, a module
  namespace), known only by its identity \<open>n\<close>; \<open>JObj\<close> is an object literal with its
  properties in insertion order; \<open>JTemplate\<close> is a template literal kept as its pieces,
  before they are converted to strings and concatenated.
\<close>

datatype jsval =
    Undefined
  | Null
  | JBool bool
  | JNum jsnum
  | JStr string
  | JRef nat
  | JObj "(string \<times> jsval) list"
  | JTemplate "jsval list"

text \<open>
  ToBoolean: the falsy values are undefined, null, false, the zeros, NaN and the empty
  string. (A template literal of the modelled code has a literal piece that is not empty,
  so it is a non-empty string.)
\<close>

fun num_truthy :: "jsnum \<Rightarrow> bool" where
  "num_truthy NaN = False"
| "num_truthy (Fin q) = (q \<noteq> 0)"
| "num_truthy PInf = True"
| "num_truthy NInf = True"

fun ToBoolean :: "jsval \<Rightarrow> bool" where
  "ToBoolean Undefined = False"
| "ToBoolean Null = False"
| "ToBoolean (JBool b) = b"
| "ToBoolean (JNum x) = num_truthy x"
| "ToBoolean (JStr s) = (s \<noteq> [])"
| "ToBoolean (JRef n) = True"
| "ToBoolean (JObj ps) = True"
| "ToBoolean (JTemplate ps) = True"

text \<open>The operator \<open>a || b\<close>: the left operand when it is truthy, the right one otherwise.\<close>

definition js_or :: "jsval \<Rightarrow> jsval \<Rightarrow> jsval" where
  "js_or a b = (if ToBoolean a then a else b)"

subsection \<open>Rounding to a double\<close>

definition pow2 :: "int \<Rightarrow> rat" where
  "pow2 e = (if 0 \<le> e then 2 ^ nat e else 1 / 2 ^ nat (- e))"

text \<open>The number of bits of a positive integer: \<open>bitlen 1 = 1\<close>, \<open>bitlen 8 = 4\<close>.\<close>

function bitlen :: "int \<Rightarrow> int" where
  "bitlen x = (if 0 < x then bitlen (x div 2) + 1 else 0)"
  by pat_completeness auto
termination
  by (relation "measure nat") auto

declare bitlen.simps [simp del]

text \<open>For \<open>q > 0\<close>, the binary exponent of \<open>q\<close>: the \<open>e\<close> with \<open>2^e \<le> q < 2^(e+1)\<close>.\<close>

definition ilog2 :: "rat \<Rightarrow> int" where
  "ilog2 q =
     (let k = bitlen (fst (quotient_of q)) - bitlen (snd (quotient_of q))
      in if pow2 k \<le> q then k else k - 1)"

definition round_half_even :: "rat \<Rightarrow> int" where
  "round_half_even q =
     (let f = \<lfloor>q\<rfloor>; d = q - of_int f
      in if d < 1 / 2 then f
         else if 1 / 2 < d then f + 1
         else if even f then f else f + 1)"

text \<open>
  Round to nearest, ties to even, in binary64: 53 significant bits, the least exponent
  -1022 (below it the spacing stays \<open>2^-1074\<close>), and overflow to an infinity from
  \<open>2^1024\<close> on.
\<close>

definition round_double :: "rat \<Rightarrow> jsnum" where
  "round_double q =
     (if q = 0 then Fin 0
      else let a = \<bar>q\<bar>;
               e = max (ilog2 a) (- 1022);
               u = pow2 (e - 52);
               r = of_int (round_half_even (a / u)) * u
           in if pow2 1024 \<le> r then (if 0 < q then PInf else NInf)
              else Fin (if 0 < q then r else - r))"

text \<open>The operator \<open>+\<close> on two numbers.\<close>

fun js_add :: "jsnum \<Rightarrow> jsnum \<Rightarrow> jsnum" where
  "js_add NaN y = NaN"
| "js_add x NaN = NaN"
| "js_add PInf NInf = NaN"
| "js_add NInf PInf = NaN"
| "js_add PInf y = PInf"
| "js_add NInf y = NInf"
| "js_add x PInf = PInf"
| "js_add x NInf = NInf"
| "js_add (Fin a) (Fin b) = round_double (a + b)"

fun js_neg :: "jsnum \<Rightarrow> jsnum" where
  "js_neg NaN = NaN"
| "js_neg PInf = NInf"
| "js_neg NInf = PInf"
| "js_neg (Fin q) = Fin (- q)"

subsection \<open>Number(string)\<close>

text \<open>
  A string is its text in UTF-8, one \<open>char\<close> for a byte, as the variables of the
  environment hold it. StrWhiteSpaceChar, the white space that a numeric string may begin
  and end with, is every WhiteSpace and LineTerminator of the language, each given here by
  its bytes: TAB, LF, VT, FF, CR, the space, U+00A0, U+1680, U+2000 to U+200A, U+2028,
  U+2029, U+202F, U+205F, U+3000 and U+FEFF.
\<close>

definition StrWhiteSpaceChar :: "string list" where
  "StrWhiteSpaceChar =
     [[CHR 0x09], [CHR 0x0A], [CHR 0x0B], [CHR 0x0C], [CHR 0x0D], [CHR 0x20],
      [CHR 0xC2, CHR 0xA0],
      [CHR 0xE1, CHR 0x9A, CHR 0x80],
      [CHR 0xE2, CHR 0x80, CHR 0x80], [CHR 0xE2, CHR 0x80, CHR 0x81],
      [CHR 0xE2, CHR 0x80, CHR 0x82], [CHR 0xE2, CHR 0x80, CHR 0x83],
      [CHR 0xE2, CHR 0x80, CHR 0x84], [CHR 0xE2, CHR 0x80, CHR 0x85],
      [CHR 0xE2, CHR 0x80, CHR 0x86], [CHR 0xE2, CHR 0x80, CHR 0x87],
      [CHR 0xE2, CHR 0x80, CHR 0x88], [CHR 0xE2, CHR 0x80, CHR 0x89],
      [CHR 0xE2, CHR 0x80, CHR 0x8A],
      [CHR 0xE2, CHR 0x80, CHR 0xA8], [CHR 0xE2, CHR 0x80, CHR 0xA9],
      [CHR 0xE2, CHR 0x80, CHR 0xAF],
      [CHR 0xE2, CHR 0x81, CHR 0x9F],
      [CHR 0xE3, CHR 0x80, CHR 0x80],
      [CHR 0xEF, CHR 0xBB, CHR 0xBF]]"

text \<open>The string without the longest run of the given byte sequences at its start.\<close>

function strip_leading :: "string list \<Rightarrow> string \<Rightarrow> string" where
  "strip_leading ws s =
     (case find (\<lambda>w. w \<noteq> [] \<and> take (length w) s = w) ws of
        None \<Rightarrow> s
      | Some w \<Rightarrow> strip_leading ws (drop (length w) s))"
  by pat_completeness auto
termination
proof (relation "measure (\<lambda>p. length (snd p))")
  show "wf (measure (\<lambda>p. length (snd p)))" by simp
next
  fix ws :: "string list" and s w :: string
  assume "find (\<lambda>w. w \<noteq> [] \<and> take (length w) s = w) ws = Some w"
  then have w: "w \<noteq> []" "take (length w) s = w"
    by (auto simp: find_Some_iff)
  from w(2) have "length (take (length w) s) = length w"
    by simp
  then have "length w \<le> length s"
    by simp
  with w(1) have "length s - length w < length s"
    by (cases w) simp_all
  then show "((ws, drop (length w) s), (ws, s)) \<in> measure (\<lambda>p. length (snd p))"
    by simp
qed

declare strip_leading.simps [simp del]

text \<open>
  The string without the white space at its start and at its end. The bytes of a white
  space character end a string exactly when that character ends it, so the end is
  trimmed on the reversed string.
\<close>

definition trim :: "string \<Rightarrow> string" where
  "trim s =
     rev (strip_leading (map rev StrWhiteSpaceChar) (rev (strip_leading StrWhiteSpaceChar s)))"

fun index_in :: "char \<Rightarrow> string \<Rightarrow> nat option" where
  "index_in c [] = None"
| "index_in c (d # ds) = (if c = d then Some 0 else map_option Suc (index_in c ds))"

definition is_digit :: "char \<Rightarrow> bool" where
  "is_digit c = (index_in c ''0123456789'' \<noteq> None)"

definition digit_val :: "char \<Rightarrow> nat" where
  "digit_val c = (case index_in c ''0123456789'' of Some n \<Rightarrow> n | None \<Rightarrow> 0)"

definition digits_value :: "nat \<Rightarrow> nat list \<Rightarrow> nat" where
  "digits_value base ds = foldl (\<lambda>acc d. acc * base + d) 0 ds"

definition pow10 :: "int \<Rightarrow> rat" where
  "pow10 e = (if 0 \<le> e then 10 ^ nat e else 1 / 10 ^ nat (- e))"

text \<open>SignedInteger of an exponent part: an optional sign and at least one digit.\<close>

definition SignedInteger :: "string \<Rightarrow> int option" where
  "SignedInteger s =
     (let neg = (s \<noteq> [] \<and> hd s = CHR ''-'');
          ds = (if s \<noteq> [] \<and> (hd s = CHR ''-'' \<or> hd s = CHR ''+'') then tl s else s)
      in if ds \<noteq> [] \<and> list_all is_digit ds
         then let n = int (digits_value 10 (map digit_val ds))
              in Some (if neg then - n else n)
         else None)"

text \<open>
  StrUnsignedDecimalLiteral: \<open>Infinity\<close>, or digits with an optional fraction and an
  optional exponent part, at least one digit before or after the point.
\<close>

definition StrUnsignedDecimalLiteral :: "string \<Rightarrow> jsnum option" where
  "StrUnsignedDecimalLiteral s =
     (if s = ''Infinity'' then Some PInf
      else let ip = takeWhile is_digit s;
               r1 = dropWhile is_digit s;
               dot = (r1 \<noteq> [] \<and> hd r1 = CHR ''.'');
               fp = (if dot then takeWhile is_digit (tl r1) else []);
               r2 = (if dot then dropWhile is_digit (tl r1) else r1);
               ex = (if r2 = [] then Some 0
                     else if hd r2 = CHR ''e'' \<or> hd r2 = CHR ''E'' then SignedInteger (tl r2)
                     else None)
           in if ip = [] \<and> fp = [] then None
              else case ex of
                     None \<Rightarrow> None
                   | Some e \<Rightarrow>
                       Some (round_double
                         (of_nat (digits_value 10 (map digit_val (ip @ fp)))
                            * pow10 (e - int (length fp)))))"

definition StrDecimalLiteral :: "string \<Rightarrow> jsnum option" where
  "StrDecimalLiteral s =
     (if s \<noteq> [] \<and> hd s = CHR ''+'' then StrUnsignedDecimalLiteral (tl s)
      else if s \<noteq> [] \<and> hd s = CHR ''-'' then map_option js_neg (StrUnsignedDecimalLiteral (tl s))
      else StrUnsignedDecimalLiteral s)"

text \<open>NonDecimalIntegerLiteral: \<open>0b\<close>, \<open>0o\<close> or \<open>0x\<close> (either case), then digits of that base.\<close>

definition radix_digits :: "string \<Rightarrow> string \<Rightarrow> string \<Rightarrow> jsnum option" where
  "radix_digits lower upper ds =
     (let vs = map (\<lambda>c. case index_in c lower of Some n \<Rightarrow> Some n | None \<Rightarrow> index_in c upper) ds
      in if ds = [] \<or> None \<in> set vs then None
         else Some (round_double (of_nat (digits_value (length lower) (map the vs)))))"

definition NonDecimalIntegerLiteral :: "string \<Rightarrow> jsnum option" where
  "NonDecimalIntegerLiteral s =
     (if take 2 s = ''0b'' \<or> take 2 s = ''0B'' then radix_digits ''01'' ''01'' (drop 2 s)
      else if take 2 s = ''0o'' \<or> take 2 s = ''0O'' then radix_digits ''01234567'' ''01234567'' (drop 2 s)
      else if take 2 s = ''0x'' \<or> take 2 s = ''0X''
        then radix_digits ''0123456789abcdef'' ''0123456789ABCDEF'' (drop 2 s)
      else None)"

text \<open>
  StringToNumber: the string without its leading and trailing white space; the empty
  string is 0, a numeric literal its rounded value, anything else NaN.
\<close>

definition StringToNumber :: "string \<Rightarrow> jsnum" where
  "StringToNumber s =
     (let t = trim s
      in if t = [] then Fin 0
         else case NonDecimalIntegerLiteral t of
                Some v \<Rightarrow> v
              | None \<Rightarrow> (case StrDecimalLiteral t of Some v \<Rightarrow> v | None \<Rightarrow> NaN))"

text \<open>
  \<open>Number(process.env.X)\<close>: a variable of the environment is a string, or undefined
  when it is not set, and \<open>Number(undefined)\<close> is NaN.
\<close>

type_synonym environment = "string \<Rightarrow> string option"

definition Number_env :: "string option \<Rightarrow> jsnum" where
  "Number_env v = (case v of None \<Rightarrow> NaN | Some s \<Rightarrow> StringToNumber s)"

section \<open>The development server\<close>

text \<open>\<open>const host = process.env.APP_HOST || '127.0.0.1'\<close>\<close>

definition host :: "environment \<Rightarrow> jsval" where
  "host env =
     js_or (case env ''APP_HOST'' of None \<Rightarrow> Undefined | Some s \<Rightarrow> JStr s) (JStr ''127.0.0.1'')"

text \<open>\<open>const port = (Number(process.env.FRONTEND_PORT) + 1) || 8096\<close>\<close>

definition port :: "environment \<Rightarrow> jsval" where
  "port env =
     js_or (JNum (js_add (Number_env (env ''FRONTEND_PORT'')) (Fin 1))) (JNum (Fin 8096))"

text \<open>
  \<open>webpackConfig\<close> is imported from \<open>./webpack.config.client.development\<close>, which is
  not among the modelled files; the script reads only \<open>webpackConfig.output.publicPath\<close>
  from it (and hands the whole of it to the bundler), so that value is the parameter
  \<open>publicPath\<close> below.
\<close>

definition contentBase :: "environment \<Rightarrow> jsval" where
  "contentBase env = JTemplate [JStr ''http://'', host env, JStr '':'', port env]"

text \<open>The constant \<open>serverOptions\<close> of lines 15 to 27.\<close>

definition serverOptions :: "environment \<Rightarrow> jsval \<Rightarrow> jsval" where
  "serverOptions env publicPath =
     JObj [(''contentBase'', contentBase env),
           (''quiet'', JBool True),
           (''noInfo'', JBool True),
           (''inline'', JBool True),
           (''publicPath'', publicPath),
           (''headers'', JObj [(''Access-Control-Allow-Origin'', JStr ''*'')]),
           (''stats'', JObj [(''colors'', JBool True)]),
           (''watchOptions'',
              JObj [(''aggregateTimeout'', JNum (Fin 300)), (''poll'', JNum (Fin 1000))])]"

text \<open>The object literal that line 34 passes to \<open>webpackDevMiddleware\<close>.\<close>

definition devMiddlewareOptions :: "environment \<Rightarrow> jsval \<Rightarrow> jsval" where
  "devMiddlewareOptions env publicPath =
     JObj [(''stats'', JObj [(''colors'', JBool True)]),
           (''headers'', JObj [(''Access-Control-Allow-Origin'', JStr ''*'')]),
           (''contentBase'', contentBase env),
           (''publicPath'', publicPath),
           (''serverSideRender'', JBool True)]"

text \<open>An own property of an object literal; \<open>None\<close> when the object has no such property.\<close>

fun own_property :: "jsval \<Rightarrow> string \<Rightarrow> jsval option" where
  "own_property (JObj ps) k = map_of ps k"
| "own_property v k = None"

text \<open>
  What the script does to the outside, in order: \<open>webpack(webpackConfig)\<close>,
  \<open>new Express()\<close>, \<open>app.use\<close> of a middleware built on the compiler, \<open>app.listen\<close>, and
  the writes to the console. The two commented-out \<open>app.use\<close> lines (31 and 32) do
  nothing.
\<close>

datatype middleware = WebpackDevMiddleware jsval | WebpackHotMiddleware

datatype server_effect =
    CreateCompiler
  | CreateApp
  | Use middleware
  | Listen jsval
  | ConsoleError jsval
  | ConsoleInfo string jsval
  | UncaughtError jsval

text \<open>
  The callback given to \<open>app.listen\<close> (lines 36 to 42), called with \<open>err\<close>. The four
  bytes in the message are the UTF-8 encoding of the sign U+1F6A7 of the source.
\<close>

definition listen_callback :: "jsval \<Rightarrow> jsval \<Rightarrow> server_effect list" where
  "listen_callback p err =
     (if ToBoolean err then [ConsoleError err]
      else [ConsoleInfo
              (''==> '' @ [CHR 0xF0, CHR 0x9F, CHR 0x9A, CHR 0xA7]
                 @ ''  My HotReload Webpack development server listening on port %s'') p])"

text \<open>
  How the attempt to bind ends is decided by the HTTP library and the operating system.
  \<open>Listening\<close>: the port is bound and the callback is called without an error.
  \<open>CallbackError e\<close>: the library hands the failure \<open>e\<close> to the callback.
  \<open>ErrorEvent e\<close>: the library emits the failure as an \<open>error\<close> event of the server
  instead; the script registers no listener for that event, so the runtime writes the
  error to the standard error stream and ends the process, and the callback is never
  called.
\<close>

datatype bind_outcome = Listening | CallbackError jsval | ErrorEvent jsval

fun after_listen :: "jsval \<Rightarrow> bind_outcome \<Rightarrow> server_effect list" where
  "after_listen p Listening = listen_callback p Undefined"
| "after_listen p (CallbackError e) = listen_callback p e"
| "after_listen p (ErrorEvent e) = [UncaughtError e]"

text \<open>The whole script: lines 10, 29, 34, 35 and 36, then the end of the bind.\<close>

definition dev_server :: "environment \<Rightarrow> jsval \<Rightarrow> bind_outcome \<Rightarrow> server_effect list" where
  "dev_server env publicPath outcome =
     [CreateCompiler,
      CreateApp,
      Use (WebpackDevMiddleware (devMiddlewareOptions env publicPath)),
      Use WebpackHotMiddleware,
      Listen (port env)]
     @ after_listen (port env) outcome"

text \<open>What an effect writes to the standard error stream, if anything.\<close>

fun stderr_of :: "server_effect \<Rightarrow> jsval option" where
  "stderr_of (ConsoleError e) = Some e"
| "stderr_of (UncaughtError e) = Some e"
| "stderr_of x = None"

fun is_listen :: "server_effect \<Rightarrow> bool" where
  "is_listen (Listen p) = True"
| "is_listen x = False"

text \<open>The options of the bundler middlewares that the script installs.\<close>

fun dev_middleware_options :: "server_effect \<Rightarrow> jsval option" where
  "dev_middleware_options (Use (WebpackDevMiddleware opts)) = Some opts"
| "dev_middleware_options x = None"

subsection \<open>The bundler middleware\<close>

record http_response =
  status :: nat
  headers :: "(string \<times> jsval) list"
  body :: string

text \<open>
  Modelled from the spec: the bundler middleware is a library outside the repository.
  The spec has it serve "compiled output under a configured public path prefix" with the
  headers it was configured with: a request whose path is the \<open>publicPath\<close> option
  followed by the name of a compiled file is answered with that file, and every entry of
  the \<open>headers\<close> option is set on the response before the content headers; any other
  request is passed on (\<open>None\<close>).
\<close>

definition option_headers :: "jsval \<Rightarrow> (string \<times> jsval) list" where
  "option_headers opts = (case own_property opts ''headers'' of Some (JObj hs) \<Rightarrow> hs | _ \<Rightarrow> [])"

definition middleware_serve ::
  "jsval \<Rightarrow> (string \<Rightarrow> string option) \<Rightarrow> string \<Rightarrow> http_response option" where
  "middleware_serve opts compiled path =
     (case own_property opts ''publicPath'' of
        Some (JStr prefix) \<Rightarrow>
          (if take (length prefix) path = prefix
           then (case compiled (drop (length prefix) path) of
                   Some content \<Rightarrow>
                     Some \<lparr>status = 200,
                           headers = option_headers opts
                             @ [(''Content-Length'', JNum (Fin (of_nat (length content))))],
                           body = content\<rparr>
                 | None \<Rightarrow> None)
           else None)
      | _ \<Rightarrow> None)"

section \<open>The shell entry point\<close>

text \<open>
  \<open>run.sh\<close>: \<open>"$NODE_ENV"\<close> expands to the value of the variable, and to the empty string
  when it is not set. The script prints a line and runs one of two commands.
\<close>

datatype shell_effect = Echo string | Run string

definition expand :: "environment \<Rightarrow> string \<Rightarrow> string" where
  "expand env v = (case env v of None \<Rightarrow> [] | Some s \<Rightarrow> s)"

definition run_sh :: "environment \<Rightarrow> shell_effect list" where
  "run_sh env =
     (if expand env ''NODE_ENV'' = ''development''
      then [Echo ''running production build'', Run ''npm run docker-prod'']
      else [Echo ''running development build'', Run ''npm run docker-dev''])"

section \<open>The client bootstrap\<close>

text \<open>
  What the page and the build give \<open>client.js\<close>: the globals it reads, the values that
  the bundler substitutes for \<open>__PLAYER__\<close> and \<open>__DESKTOP__\<close>, \<open>module.hot\<close> (an object
  when the live-update channel is there, undefined otherwise), the binding of the import
  \<open>baseRoute\<close>, what \<open>require\<close> resolves each module path to, the element with the id
  \<open>app\<close>, and the first object identity not yet in use. The error reporting library is
  outside the repository: \<open>raven_accepts v\<close> says whether its \<open>config\<close> takes the value \<open>v\<close>
  as the address of an endpoint (a DSN); on any other truthy value it throws.
\<close>

record page =
  window_data :: jsval
  ravenConfig :: jsval
  raven_accepts :: "jsval \<Rightarrow> bool"
  PLAYER :: jsval
  DESKTOP :: jsval
  module_hot :: jsval
  baseRoute :: jsval
  page_modules :: "string \<Rightarrow> jsval"
  app_element :: jsval
  fresh :: nat

text \<open>A React element: its type, its props in order, its children.\<close>

datatype element = Element string "(string \<times> jsval) list" "element list"

fun elements :: "element \<Rightarrow> element list" where
  "elements (Element n ps cs) = Element n ps cs # concat (map elements cs)"

fun element_type :: "element \<Rightarrow> string" where
  "element_type (Element n ps cs) = n"

fun props :: "element \<Rightarrow> (string \<times> jsval) list" where
  "props (Element n ps cs) = ps"

record script_element =
  async :: bool
  src :: string

datatype client_effect =
    NewApiClient jsval
  | GetElementById string
  | AppendToHead script_element
  | WindowSet string jsval
  | CreateStore jsval jsval jsval
  | RavenInstall jsval
  | Require string
  | Hydrate element jsval
  | HotAccept string

text \<open>The error that \<open>Raven.config\<close> throws on a value that is no DSN.\<close>

datatype js_error = RavenConfigError jsval

text \<open>The one function that the script hands to \<open>module.hot.accept\<close> (lines 52 to 59).\<close>

datatype hot_callback = RerenderBaseRoute

text \<open>
  The state of the page while the script runs and afterwards: the module-level
  constants \<open>client\<close>, \<open>dest\<close> and \<open>store\<close> (undefined until their line has run), the
  properties of \<open>window\<close> that the script writes, the module table, the handler for
  uncaught errors (the configuration it was installed with), what is rendered under each
  container, the subscriptions of the live-update channel, the calls made so far, and the
  error that ended the script, if one did.
\<close>

record client_state =
  client :: jsval
  dest :: jsval
  store :: jsval
  wrAppContainer :: jsval
  isReactDndBackendSetUp :: jsval
  modules :: "string \<Rightarrow> jsval"
  next_ref :: nat
  error_handler :: "jsval option"
  rendered :: "jsval \<Rightarrow> element option"
  accepted :: "(string \<times> hot_callback) list"
  trace :: "client_effect list"
  thrown :: "js_error option"

definition emit :: "client_effect \<Rightarrow> client_state \<Rightarrow> client_state" where
  "emit e st = st\<lparr>trace := trace st @ [e]\<rparr>"

text \<open>
  The object literal \<open>{ store, ...renderProps }\<close>: a property that is spread replaces
  the value of a property of the same name and keeps its place, a new name is added at
  the end.
\<close>

fun set_prop :: "(string \<times> jsval) list \<Rightarrow> string \<Rightarrow> jsval \<Rightarrow> (string \<times> jsval) list" where
  "set_prop [] k v = [(k, v)]"
| "set_prop ((k', v') # ps) k v = (if k' = k then (k, v) # ps else (k', v') # set_prop ps k v)"

definition spread :: "(string \<times> jsval) list \<Rightarrow> (string \<times> jsval) list \<Rightarrow> (string \<times> jsval) list" where
  "spread ps qs = foldl (\<lambda>acc kv. set_prop acc (fst kv) (snd kv)) ps qs"

text \<open>The element that \<open>renderApp\<close> builds (lines 39 to 43).\<close>

definition app_tree :: "jsval \<Rightarrow> (string \<times> jsval) list \<Rightarrow> element" where
  "app_tree s renderProps =
     Element ''AppContainer'' [(''warnings'', JBool False)]
       [Element ''Provider'' [(''store'', s), (''key'', JStr ''provider'')]
          [Element ''Root'' (spread [(''store'', s)] renderProps) []]]"

text \<open>
  Modelled from the spec: \<open>ReactDOM.hydrate\<close> is a library outside the repository. The
  spec has each call "fully replace the rendered tree under the mount element": after
  the call, what is rendered under the container is the tree of the element given, and
  whatever was rendered there before is gone.
\<close>

definition hydrate :: "element \<Rightarrow> jsval \<Rightarrow> client_state \<Rightarrow> client_state" where
  "hydrate el container st =
     emit (Hydrate el container) (st\<lparr>rendered := (rendered st)(container := Some el)\<rparr>)"

text \<open>\<open>renderApp\<close> (lines 37 to 46); \<open>store\<close> and \<open>dest\<close> are the constants of the module.\<close>

definition renderApp :: "(string \<times> jsval) list \<Rightarrow> client_state \<Rightarrow> client_state" where
  "renderApp renderProps st = hydrate (app_tree (store st) renderProps) (dest st) st"

text \<open>\<open>require(path)\<close>: the exports that the module table has for the path.\<close>

definition require :: "string \<Rightarrow> client_state \<Rightarrow> jsval \<times> client_state" where
  "require path st = (modules st path, emit (Require path) st)"

text \<open>The body of the callback of lines 52 to 59.\<close>

fun run_callback :: "hot_callback \<Rightarrow> client_state \<Rightarrow> client_state" where
  "run_callback RerenderBaseRoute st =
     (let (nextRoutes, st1) = require ''./baseRoute'' st;
          st2 = emit (WindowSet ''__isReactDndBackendSetUp'' (JBool False))
                  (st1\<lparr>isReactDndBackendSetUp := JBool False\<rparr>)
      in renderApp [(''routes'', nextRoutes), (''client'', client st2)] st2)"

text \<open>
  \<open>client.js\<close> from its first statement to its last, or to the statement that throws.
  The other calls into libraries are taken to return; a new object gets the next free
  identity.
\<close>

definition initial_state :: "page \<Rightarrow> client_state" where
  "initial_state pg =
     \<lparr>client = Undefined, dest = Undefined, store = Undefined,
      wrAppContainer = Undefined, isReactDndBackendSetUp = Undefined,
      modules = page_modules pg, next_ref = fresh pg, error_handler = None,
      rendered = (\<lambda>c. None), accepted = [], trace = [], thrown = None\<rparr>"

definition new_client :: "client_state \<Rightarrow> client_state" where
  "new_client st =
     emit (NewApiClient (JRef (next_ref st)))
       (st\<lparr>client := JRef (next_ref st), next_ref := Suc (next_ref st)\<rparr>)"

definition find_dest :: "page \<Rightarrow> client_state \<Rightarrow> client_state" where
  "find_dest pg st = emit (GetElementById ''app'') (st\<lparr>dest := app_element pg\<rparr>)"

definition inject_script :: "client_state \<Rightarrow> client_state" where
  "inject_script st =
     emit (AppendToHead
             \<lparr>async = True,
              src = ''http://127.0.0.1:8096/static/main-ce6d544a4ec204f36b27.js''\<rparr>) st"

definition publish_container :: "client_state \<Rightarrow> client_state" where
  "publish_container st =
     emit (WindowSet ''wrAppContainer'' (dest st)) (st\<lparr>wrAppContainer := dest st\<rparr>)"

definition createStore :: "page \<Rightarrow> client_state \<Rightarrow> client_state" where
  "createStore pg st =
     emit (CreateStore (client st) (window_data pg) (JRef (next_ref st)))
       (st\<lparr>store := JRef (next_ref st), next_ref := Suc (next_ref st)\<rparr>)"

text \<open>
  An endpoint for error reports is configured when \<open>config.ravenConfig\<close> is truthy and
  the library takes it as a DSN; the library rejects a truthy value that is no DSN.
\<close>

definition endpoint_configured :: "page \<Rightarrow> bool" where
  "endpoint_configured pg = (ToBoolean (ravenConfig pg) \<and> raven_accepts pg (ravenConfig pg))"

definition raven_rejects :: "page \<Rightarrow> bool" where
  "raven_rejects pg = (ToBoolean (ravenConfig pg) \<and> \<not> raven_accepts pg (ravenConfig pg))"

text \<open>
  Lines 33 to 35. \<open>Raven.config(config.ravenConfig)\<close> throws when the value is no DSN;
  nothing catches the error, so no handler is installed and the script ends there.
\<close>

definition error_reporting :: "page \<Rightarrow> client_state \<Rightarrow> client_state" where
  "error_reporting pg st =
     (if ToBoolean (ravenConfig pg)
      then (if raven_accepts pg (ravenConfig pg)
            then emit (RavenInstall (ravenConfig pg))
                   (st\<lparr>error_handler := Some (ravenConfig pg)\<rparr>)
            else st\<lparr>thrown := Some (RavenConfigError (ravenConfig pg))\<rparr>)
      else st)"

definition first_render :: "page \<Rightarrow> client_state \<Rightarrow> client_state" where
  "first_render pg st =
     (if ToBoolean (PLAYER pg)
      then (let (routes, st1) = require ''./playerRoutes'' st
            in renderApp [(''routes'', routes), (''client'', client st1)] st1)
      else renderApp [(''routes'', baseRoute pg), (''client'', client st)] st)"

definition subscribe :: "page \<Rightarrow> client_state \<Rightarrow> client_state" where
  "subscribe pg st =
     (if ToBoolean (module_hot pg) \<and> \<not> ToBoolean (DESKTOP pg)
      then emit (HotAccept ''./baseRoute'')
             (st\<lparr>accepted := accepted st @ [(''./baseRoute'', RerenderBaseRoute)]\<rparr>)
      else st)"

definition client_script :: "page \<Rightarrow> client_state" where
  "client_script pg =
     (let st = error_reporting pg (createStore pg
                 (publish_container (inject_script (find_dest pg
                   (new_client (initial_state pg))))))
      in if thrown st = None then subscribe pg (first_render pg st) else st)"

text \<open>
  The live-update runtime of the bundler, outside the repository: a change notification
  for a module puts the new exports of the module into the module table and then calls
  the callbacks accepted for that module, in the order of their subscription.
\<close>

definition notify :: "string \<Rightarrow> jsval \<Rightarrow> client_state \<Rightarrow> client_state" where
  "notify path exports st =
     foldl (\<lambda>s cb. run_callback cb s) (st\<lparr>modules := (modules st)(path := exports)\<rparr>)
       (map snd (filter (\<lambda>sub. fst sub = path) (accepted st)))"

text \<open>The page after the script and a sequence of change notifications.\<close>

definition run :: "page \<Rightarrow> (string \<times> jsval) list \<Rightarrow> client_state" where
  "run pg ns = foldl (\<lambda>s n. notify (fst n) (snd n) s) (client_script pg) ns"

text \<open>
  Modelled from the spec: what becomes of an error that nothing catches is decided by
  the browser and the error reporting library, outside the repository. The spec has it
  go "to the global uncaught-exception handler if installed, which forwards it
  externally", and to the browser's default handling with no handler.
\<close>

datatype disposition = Reported jsval jsval | BrowserDefault jsval

definition uncaught :: "client_state \<Rightarrow> jsval \<Rightarrow> disposition" where
  "uncaught st e = (case error_handler st of Some cfg \<Rightarrow> Reported cfg e | None \<Rightarrow> BrowserDefault e)"

text \<open>The calls of one kind in a trace.\<close>

fun hydrated :: "client_effect \<Rightarrow> element option" where
  "hydrated (Hydrate el c) = Some el"
| "hydrated x = None"

fun created_store :: "client_effect \<Rightarrow> jsval option" where
  "created_store (CreateStore c d s) = Some s"
| "created_store x = None"

text \<open>The store handed to the \<open>Provider\<close> of a rendered element, and the props of its \<open>Root\<close>.\<close>

definition provider_store :: "element \<Rightarrow> jsval option list" where
  "provider_store el =
     map (\<lambda>e. map_of (props e) ''store'') (filter (\<lambda>e. element_type e = ''Provider'') (elements el))"

definition root_props :: "element \<Rightarrow> (string \<times> jsval) list list" where
  "root_props el = map props (filter (\<lambda>e. element_type e = ''Root'') (elements el))"

fun raven_installed :: "client_effect \<Rightarrow> jsval option" where
  "raven_installed (RavenInstall cfg) = Some cfg"
| "raven_installed x = None"

fun hot_accepted :: "client_effect \<Rightarrow> string option" where
  "hot_accepted (HotAccept path) = Some path"
| "hot_accepted x = None"

text \<open>
  A page of a development build for the examples: the live-update channel is there, the
  build is neither the player nor the desktop one, no endpoint for error reports is
  configured, and the error reporting library takes one address as a DSN.
\<close>

definition example_page :: page where
  "example_page =
     \<lparr>window_data = Undefined, ravenConfig = Undefined,
      raven_accepts = (\<lambda>v. v = JStr ''https://key@sentry.example.org/1''),
      PLAYER = JBool False, DESKTOP = JBool False, module_hot = JRef 1,
      baseRoute = JRef 2,
      page_modules = (\<lambda>path. if path = ''./baseRoute'' then JRef 2
                              else if path = ''./playerRoutes'' then JRef 3 else Undefined),
      app_element = JRef 0, fresh = 10\<rparr>"

section \<open>Properties of the development server\<close>

subsection \<open>Integers up to \<open>2^53\<close> are doubles\<close>

lemma bitlen_pos_ex:
  "0 < x \<Longrightarrow> \<exists>n::nat. bitlen x = int n + 1 \<and> 2 ^ n \<le> x \<and> x < 2 ^ (n + 1)"
proof (induction x rule: bitlen.induct)
  case (1 x)
  show ?case
  proof (cases "x = 1")
    case True
    have "bitlen 1 = 1" by (simp add: bitlen.simps)
    with True show ?thesis by (intro exI[of _ 0]) simp
  next
    case False
    with "1.prems" have h: "0 < x div 2" by simp
    from "1.IH"[OF "1.prems" h] obtain n :: nat
      where n: "bitlen (x div 2) = int n + 1" "2 ^ n \<le> x div 2" "x div 2 < 2 ^ (n + 1)"
      by blast
    have b: "bitlen x = int (n + 1) + 1"
      using "1.prems" n(1) by (subst bitlen.simps) simp
    have lo: "(2::int) ^ (n + 1) \<le> x" using n(2) by simp
    have hi: "x < (2::int) ^ (n + 1 + 1)" using n(3) by simp
    from b lo hi show ?thesis by blast
  qed
qed

lemma round_half_even_of_int: "round_half_even (of_int j) = j"
  by (simp add: round_half_even_def)

lemma ilog2_of_int:
  assumes "0 < m"
  shows "\<exists>n::nat. ilog2 (of_int m) = int n \<and> 2 ^ n \<le> m \<and> m < 2 ^ (n + 1)"
proof -
  from bitlen_pos_ex[OF assms] obtain n :: nat
    where n: "bitlen m = int n + 1" "2 ^ n \<le> m" "m < 2 ^ (n + 1)" by blast
  have one: "bitlen 1 = 1" by (simp add: bitlen.simps)
  have "(2::rat) ^ n \<le> of_int m"
  proof -
    have "(of_int ((2::int) ^ n) :: rat) \<le> of_int m" using n(2) by (simp only: of_int_le_iff)
    then show ?thesis by simp
  qed
  then have "ilog2 (of_int m) = int n"
    by (simp add: ilog2_def n(1) one pow2_def)
  with n show ?thesis by blast
qed

lemma round_double_pos_int:
  assumes m: "0 < m" "m \<le> 2 ^ 53"
  shows "round_double (of_int m) = Fin (of_int m)"
proof -
  from ilog2_of_int[OF m(1)] obtain n :: nat
    where n: "ilog2 (of_int m) = int n" "2 ^ n \<le> m" "m < 2 ^ (n + 1)" by blast
  have n53: "n \<le> 53"
  proof (rule ccontr)
    assume "\<not> n \<le> 53"
    then have "54 \<le> n" by simp
    then have "(2::int) ^ 54 \<le> 2 ^ n" by (rule power_increasing) simp
    with n(2) m(2) show False by simp
  qed
  have r: "of_int (round_half_even (of_int m / pow2 (int n - 52))) * pow2 (int n - 52)
             = (of_int m :: rat)"
  proof (cases "n \<le> 52")
    case True
    then have u: "pow2 (int n - 52) = 1 / 2 ^ (52 - n)"
      by (cases "n = 52") (simp_all add: pow2_def nat_diff_distrib')
    have "(of_int m :: rat) / pow2 (int n - 52) = of_int (m * 2 ^ (52 - n))"
      by (simp add: u)
    then have "round_half_even (of_int m / pow2 (int n - 52)) = m * 2 ^ (52 - n)"
      by (simp only: round_half_even_of_int)
    then show ?thesis by (simp add: u)
  next
    case False
    with n53 have n_eq: "n = 53" by simp
    with n(2) m(2) have m_eq: "m = 2 ^ 53" by simp
    have u: "pow2 (int n - 52) = 2" by (simp add: n_eq pow2_def)
    have "(of_int m :: rat) / 2 = of_int (2 ^ 52)" by (simp add: m_eq)
    then have "round_half_even (of_int m / 2) = 2 ^ 52"
      by (simp only: round_half_even_of_int)
    then show ?thesis by (simp add: u m_eq)
  qed
  have big: "\<not> pow2 1024 \<le> (of_int m :: rat)"
  proof -
    have "(of_int m :: rat) \<le> of_int (2 ^ 53)" using m(2) by (simp only: of_int_le_iff)
    then have "(of_int m :: rat) < 2 ^ 1024" by simp
    then show ?thesis by (simp add: pow2_def)
  qed
  have a: "\<bar>of_int m :: rat\<bar> = of_int m" using m(1) by simp
  have nz: "(of_int m :: rat) \<noteq> 0" "0 < (of_int m :: rat)" using m(1) by simp_all
  show ?thesis
    unfolding round_double_def Let_def a n(1)
    using nz r big by (simp add: max_def)
qed

lemma round_double_of_int:
  assumes "\<bar>n\<bar> \<le> 2 ^ 53"
  shows "round_double (of_int n) = Fin (of_int n)"
proof (cases "n = 0")
  case True
  then show ?thesis by (simp add: round_double_def)
next
  case False
  show ?thesis
  proof (cases "0 < n")
    case True
    with assms show ?thesis by (intro round_double_pos_int) simp_all
  next
    case neg: False
    with False have lt: "n < 0" by simp
    then have m: "0 < - n" "- n \<le> 2 ^ 53" using assms by simp_all
    have ab: "\<bar>of_int n :: rat\<bar> = of_int (- n)" using lt by simp
    have pos: "round_double (of_int (- n)) = Fin (of_int (- n))"
      by (rule round_double_pos_int[OF m])
    have sym: "round_double (of_int n) = js_neg (round_double (of_int (- n)))"
      using lt by (simp add: round_double_def Let_def)
    show ?thesis by (simp only: sym pos js_neg.simps) simp
  qed
qed

lemma round_double_numeral:
  "numeral k \<le> (2::int) ^ 53 \<Longrightarrow> round_double (numeral k) = Fin (numeral k)"
  using round_double_of_int[of "numeral k"] by simp

lemma round_double_one: "round_double 1 = Fin 1"
  using round_double_of_int[of 1] by simp

lemma round_double_zero: "round_double 0 = Fin 0"
  by (simp add: round_double_def)

subsection \<open>Doubles near -1\<close>

lemma pow2_powi: "pow2 e = 2 powi e"
  by (simp add: pow2_def power_int_def inverse_eq_divide power_one_over)

lemma pow2_pos: "0 < pow2 e"
  by (simp add: pow2_def)

lemma pow2_add: "pow2 (a + b) = pow2 a * pow2 b"
  by (simp add: pow2_powi power_int_add)

lemma pow2_mono: "a \<le> b \<Longrightarrow> pow2 a \<le> pow2 b"
  by (simp add: pow2_powi power_int_increasing)

lemma pow2_nat: "pow2 (int n) = 2 ^ n"
  by (simp add: pow2_def)

lemma pow2_neg_nat: "pow2 (- int n) = 1 / 2 ^ n"
  by (cases n) (simp_all add: pow2_def nat_add_distrib)

lemma ilog2_bounds:
  assumes "0 < q"
  shows "pow2 (ilog2 q) \<le> q \<and> q < pow2 (ilog2 q + 1)"
proof -
  obtain a b where ab: "quotient_of q = (a, b)" by (cases "quotient_of q")
  then have b: "0 < b" by (rule quotient_of_denom_pos)
  from ab have q: "q = of_int a / of_int b" by (rule quotient_of_div)
  with assms b have a: "0 < a" by (simp add: zero_less_divide_iff)
  from bitlen_pos_ex[OF a] obtain na :: nat
    where na: "bitlen a = int na + 1" "2 ^ na \<le> a" "a < 2 ^ (na + 1)" by blast
  from bitlen_pos_ex[OF b] obtain nb :: nat
    where nb: "bitlen b = int nb + 1" "2 ^ nb \<le> b" "b < 2 ^ (nb + 1)" by blast
  define k where "k = int na - int nb"
  have ra: "(of_int a :: rat) < 2 ^ (na + 1)" "(2::rat) ^ na \<le> of_int a"
  proof -
    have "(of_int a :: rat) < of_int (2 ^ (na + 1))" using na(3) by (simp only: of_int_less_iff)
    then show "(of_int a :: rat) < 2 ^ (na + 1)" by simp
    have "(of_int (2 ^ na) :: rat) \<le> of_int a" using na(2) by (simp only: of_int_le_iff)
    then show "(2::rat) ^ na \<le> of_int a" by simp
  qed
  have rb: "(of_int b :: rat) < 2 ^ (nb + 1)" "(2::rat) ^ nb \<le> of_int b"
  proof -
    have "(of_int b :: rat) < of_int (2 ^ (nb + 1))" using nb(3) by (simp only: of_int_less_iff)
    then show "(of_int b :: rat) < 2 ^ (nb + 1)" by simp
    have "(of_int (2 ^ nb) :: rat) \<le> of_int b" using nb(2) by (simp only: of_int_le_iff)
    then show "(2::rat) ^ nb \<le> of_int b" by simp
  qed
  have up: "q < pow2 (k + 1)"
  proof -
    have eq: "k + 1 = int (na + 1) + - int nb" by (simp add: k_def)
    have "q < 2 ^ (na + 1) / 2 ^ nb"
      unfolding q using ra(1) rb(2) a by (intro frac_less) simp_all
    also have "\<dots> = pow2 (k + 1)"
      by (simp only: eq pow2_add pow2_nat pow2_neg_nat) simp
    finally show ?thesis .
  qed
  have lo: "pow2 (k - 1) \<le> q"
  proof -
    have eq: "k - 1 = int na + - int (nb + 1)" by (simp add: k_def)
    have "pow2 (k - 1) = 2 ^ na / 2 ^ (nb + 1)"
      by (simp only: eq pow2_add pow2_nat pow2_neg_nat) simp
    also have "\<dots> \<le> q"
      unfolding q using ra(2) rb(1) a b by (intro frac_le) simp_all
    finally show ?thesis .
  qed
  have il: "ilog2 q = (if pow2 k \<le> q then k else k - 1)"
    by (simp add: ilog2_def ab na(1) nb(1) k_def)
  show ?thesis
  proof (cases "pow2 k \<le> q")
    case True
    with il up show ?thesis by simp
  next
    case False
    with il lo show ?thesis by simp
  qed
qed

lemma round_half_even_ge: "of_int N \<le> x \<Longrightarrow> N \<le> round_half_even x"
proof -
  assume "of_int N \<le> x"
  then have "N \<le> \<lfloor>x\<rfloor>" by (simp add: le_floor_iff)
  then show ?thesis by (simp add: round_half_even_def Let_def)
qed

lemma round_half_even_le: "x \<le> of_int N \<Longrightarrow> round_half_even x \<le> N"
proof (cases "x = of_int N")
  case True
  then show ?thesis by (simp add: round_half_even_def)
next
  case False
  assume "x \<le> of_int N"
  with False have "x < of_int N" by simp
  then have "\<lfloor>x\<rfloor> < N" by (simp add: floor_less_iff)
  then show ?thesis by (simp add: round_half_even_def Let_def)
qed

lemma round_double_grid:
  assumes "round_double y = Fin q"
  shows "(\<exists>k::int. q = of_int k / 2 ^ 53) \<or> \<bar>q\<bar> \<le> 1 / 2"
proof (cases "y = 0")
  case True
  with assms have "q = 0" by (simp add: round_double_def)
  then show ?thesis by simp
next
  case False
  define a where "a = \<bar>y\<bar>"
  define e where "e = max (ilog2 a) (- 1022)"
  define u where "u = pow2 (e - 52)"
  define m where "m = round_half_even (a / u)"
  have apos: "0 < a" using False by (simp add: a_def)
  have upos: "0 < u" by (simp add: u_def pow2_pos)
  have q: "q = of_int m * u \<or> q = - (of_int m * u)"
    using assms False
    by (auto simp: round_double_def Let_def a_def e_def u_def m_def split: if_splits)
  have "of_int 0 \<le> a / u" using apos upos by simp
  then have mnn: "0 \<le> m" unfolding m_def by (rule round_half_even_ge)
  show ?thesis
  proof (cases "- 1 \<le> e")
    case True
    have "e - 52 = int (nat (e + 1)) + - 53" using True by simp
    then have "u = pow2 (int (nat (e + 1))) * pow2 (- 53)"
      unfolding u_def by (simp only: pow2_add)
    then have u: "u = of_int (2 ^ nat (e + 1)) / 2 ^ 53"
      by (simp add: pow2_nat) (simp add: pow2_def)
    from q have "q = of_int (m * 2 ^ nat (e + 1)) / 2 ^ 53
        \<or> q = of_int (- (m * 2 ^ nat (e + 1))) / 2 ^ 53"
      by (simp add: u)
    then show ?thesis by blast
  next
    case False
    then have e2: "e + 1 \<le> - 1" by simp
    have "ilog2 a + 1 \<le> e + 1" by (simp add: e_def)
    then have "pow2 (ilog2 a + 1) \<le> pow2 (e + 1)" by (rule pow2_mono)
    with ilog2_bounds[OF apos] have a_lt: "a < pow2 (e + 1)" by simp
    have split: "pow2 (e + 1) = of_int (2 ^ 53) * u"
    proof -
      have "e + 1 = 53 + (e - 52)" by simp
      then have "pow2 (e + 1) = pow2 53 * pow2 (e - 52)" by (simp only: pow2_add)
      then show ?thesis by (simp add: u_def pow2_def)
    qed
    have "a / u \<le> of_int (2 ^ 53)"
      using a_lt upos unfolding split by (simp add: pos_divide_le_eq)
    then have "m \<le> 2 ^ 53" unfolding m_def by (rule round_half_even_le)
    then have "(of_int m :: rat) \<le> of_int (2 ^ 53)" by (simp only: of_int_le_iff)
    then have "of_int m * u \<le> of_int (2 ^ 53) * u"
      using upos by (simp only: mult_le_cancel_right_pos)
    also have "\<dots> = pow2 (e + 1)" by (simp only: split)
    also have "\<dots> \<le> pow2 (- 1)" using e2 by (rule pow2_mono)
    also have "\<dots> = 1 / 2" by (simp add: pow2_def)
    finally have le: "of_int m * u \<le> 1 / 2" .
    have ge: "0 \<le> of_int m * u" using mnn upos by simp
    from q le ge show ?thesis by auto
  qed
qed

lemma round_double_truthy:
  assumes "1 / 2 ^ 53 \<le> \<bar>y\<bar>"
  shows "num_truthy (round_double y)"
proof -
  define a where "a = \<bar>y\<bar>"
  define e where "e = max (ilog2 a) (- 1022)"
  define u where "u = pow2 (e - 52)"
  define m where "m = round_half_even (a / u)"
  have a53: "1 / 2 ^ 53 \<le> a" using assms by (simp add: a_def)
  then have apos: "0 < a" by (rule less_le_trans[rotated]) simp
  then have ynz: "y \<noteq> 0" by (auto simp: a_def)
  have upos: "0 < u" by (simp add: u_def pow2_pos)
  have "u \<le> a"
  proof (cases "ilog2 a \<le> - 1022")
    case True
    then have "e = - 1022" by (simp add: e_def)
    then have "u = pow2 (- 1074)" by (simp add: u_def)
    also have "\<dots> \<le> pow2 (- 53)" by (rule pow2_mono) simp
    also have "\<dots> = 1 / 2 ^ 53" by (simp add: pow2_def)
    finally show ?thesis using a53 by simp
  next
    case False
    then have "e = ilog2 a" by (simp add: e_def)
    then have "u = pow2 (ilog2 a - 52)" by (simp add: u_def)
    also have "\<dots> \<le> pow2 (ilog2 a)" by (rule pow2_mono) simp
    also have "\<dots> \<le> a" using ilog2_bounds[OF apos] by simp
    finally show ?thesis .
  qed
  then have "of_int 1 \<le> a / u" using upos by (simp add: pos_le_divide_eq)
  then have "1 \<le> m" unfolding m_def by (rule round_half_even_ge)
  then have mnz: "m \<noteq> 0" by simp
  from upos have unz: "u \<noteq> 0" by simp
  show ?thesis
    using ynz mnz unz
    by (simp add: round_double_def Let_def a_def[symmetric] e_def[symmetric]
        u_def[symmetric] m_def[symmetric])
qed

lemma grid_plus_one_truthy:
  assumes "(\<exists>k::int. q = of_int k / 2 ^ 53) \<or> \<bar>q\<bar> \<le> 1 / 2" and "q \<noteq> - 1"
  shows "num_truthy (round_double (q + 1))"
proof (rule round_double_truthy)
  from assms(1) show "1 / 2 ^ 53 \<le> \<bar>q + 1\<bar>"
  proof
    assume "\<exists>k::int. q = of_int k / 2 ^ 53"
    then obtain k :: int where k: "q = of_int k / 2 ^ 53" by blast
    have q1: "q + 1 = of_int (k + 2 ^ 53) / 2 ^ 53" by (simp add: k add_divide_distrib)
    have "k + 2 ^ 53 \<noteq> 0"
    proof
      assume "k + 2 ^ 53 = 0"
      with q1 have "q + 1 = 0" by simp
      with assms(2) show False by simp
    qed
    then have "1 \<le> \<bar>k + 2 ^ 53\<bar>" by simp
    then have "(of_int 1 :: rat) \<le> of_int \<bar>k + 2 ^ 53\<bar>" by (simp only: of_int_le_iff)
    then have "(1::rat) \<le> \<bar>of_int (k + 2 ^ 53)\<bar>" by simp
    then have "1 / 2 ^ 53 \<le> \<bar>of_int (k + 2 ^ 53) :: rat\<bar> / 2 ^ 53"
      by (simp only: divide_le_cancel) simp
    then show ?thesis by (simp only: q1 abs_divide) simp
  next
    assume "\<bar>q\<bar> \<le> 1 / 2"
    then have "1 / 2 \<le> \<bar>q + 1\<bar>" by simp
    moreover have "(1::rat) / 2 ^ 53 \<le> 1 / 2" by simp
    ultimately show ?thesis by simp
  qed
qed

lemma pow2_code [code]:
  "pow2 e =
     (if e < 0 then 1 / pow2 (- e)
      else if e = 0 then 1
      else (let h = pow2 (e div 2) in if even e then h * h else 2 * h * h))"
proof (cases "e < 0")
  case True
  then show ?thesis by (simp add: pow2_def)
next
  case False
  show ?thesis
  proof (cases "e = 0")
    case True
    then show ?thesis by (simp add: pow2_def)
  next
    case nz: False
    have h: "pow2 (e div 2) * pow2 (e div 2) = pow2 (2 * (e div 2))"
      by (simp add: pow2_add[symmetric])
    show ?thesis
    proof (cases "even e")
      case True
      then have "2 * (e div 2) = e" by simp
      with h True False nz show ?thesis by (simp add: Let_def)
    next
      case odd: False
      then have "e = 1 + 2 * (e div 2)" by presburger
      then have "pow2 e = pow2 1 * pow2 (2 * (e div 2))" by (metis pow2_add)
      also have "pow2 1 = 2" by (simp add: pow2_def)
      finally show ?thesis using h odd False nz by (simp add: Let_def)
    qed
  qed
qed

abbreviation on_grid :: "rat \<Rightarrow> bool" where
  "on_grid q \<equiv> (\<exists>k::int. q = of_int k / 2 ^ 53) \<or> \<bar>q\<bar> \<le> 1 / 2"

lemma on_grid_minus:
  assumes "on_grid (- q)"
  shows "on_grid q"
  using assms
proof
  assume "\<exists>k::int. - q = of_int k / 2 ^ 53"
  then obtain k :: int where "- q = of_int k / 2 ^ 53" by blast
  then have "q = of_int (- k) / 2 ^ 53" by (simp add: minus_equation_iff[of q])
  then show ?thesis by blast
next
  assume "\<bar>- q\<bar> \<le> 1 / 2"
  then show ?thesis by simp
qed

lemma radix_digits_grid: "radix_digits lower upper ds = Some (Fin q) \<Longrightarrow> on_grid q"
  by (auto simp: radix_digits_def Let_def split: if_splits dest: round_double_grid)

lemma NonDecimalIntegerLiteral_grid: "NonDecimalIntegerLiteral s = Some (Fin q) \<Longrightarrow> on_grid q"
  unfolding NonDecimalIntegerLiteral_def
  by (auto split: if_splits dest: radix_digits_grid)

lemma StrUnsignedDecimalLiteral_cases:
  "StrUnsignedDecimalLiteral s = Some v \<Longrightarrow> v = PInf \<or> (\<exists>y. v = round_double y)"
  unfolding StrUnsignedDecimalLiteral_def Let_def
  by (auto split: if_splits option.splits)

lemma StrUnsignedDecimalLiteral_grid:
  "StrUnsignedDecimalLiteral s = Some (Fin q) \<Longrightarrow> on_grid q"
  by (auto dest!: StrUnsignedDecimalLiteral_cases dest: round_double_grid[OF sym])

lemma StrDecimalLiteral_grid:
  assumes "StrDecimalLiteral s = Some (Fin q)"
  shows "on_grid q"
proof (cases "s \<noteq> [] \<and> hd s = CHR ''-''")
  case True
  with assms obtain x where x: "StrUnsignedDecimalLiteral (tl s) = Some x" "js_neg x = Fin q"
    by (auto simp: StrDecimalLiteral_def)
  from x(2) have "x = Fin (- q)" by (cases x) auto
  with x(1) have "on_grid (- q)" by (simp only: StrUnsignedDecimalLiteral_grid)
  then show ?thesis by (rule on_grid_minus)
next
  case False
  with assms have "StrUnsignedDecimalLiteral (tl s) = Some (Fin q)
      \<or> StrUnsignedDecimalLiteral s = Some (Fin q)"
    by (auto simp: StrDecimalLiteral_def split: if_splits)
  then show ?thesis by (auto dest: StrUnsignedDecimalLiteral_grid)
qed

lemma StringToNumber_grid:
  assumes "StringToNumber s = Fin q"
  shows "on_grid q"
proof (cases "trim s = []")
  case True
  with assms have "q = 0" by (simp add: StringToNumber_def)
  then show ?thesis by simp
next
  case False
  with assms have "NonDecimalIntegerLiteral (trim s) = Some (Fin q)
      \<or> StrDecimalLiteral (trim s) = Some (Fin q)"
    by (auto simp: StringToNumber_def Let_def split: option.splits)
  then show ?thesis
    by (auto dest: NonDecimalIntegerLiteral_grid StrDecimalLiteral_grid)
qed

subsection \<open>The listen port\<close>

lemmas parse_defs = StrWhiteSpaceChar_def strip_leading.simps trim_def is_digit_def digit_val_def digits_value_def pow10_def
  SignedInteger_def StrUnsignedDecimalLiteral_def StrDecimalLiteral_def radix_digits_def
  NonDecimalIntegerLiteral_def StringToNumber_def Number_env_def Let_def
  round_double_numeral round_double_one round_double_zero

lemma port_of_integer:
  assumes "Number_env (env ''FRONTEND_PORT'') = Fin (of_int n)" and "\<bar>n\<bar> < 2 ^ 53"
  shows "port env = (if n = - 1 then JNum (Fin 8096) else JNum (Fin (of_int n + 1)))"
proof -
  have "\<bar>n + 1\<bar> \<le> 2 ^ 53" using assms(2) by simp
  then have "round_double (of_int (n + 1)) = Fin (of_int (n + 1))"
    by (rule round_double_of_int)
  then have add: "js_add (Fin (of_int n)) (Fin 1) = Fin (of_int n + 1)"
    by simp
  have z: "(of_int n + 1 = (0::rat)) = (n = - 1)"
  proof -
    have "(of_int n + 1 = (0::rat)) = (of_int (n + 1) = (of_int 0 :: rat))" by simp
    also have "\<dots> = (n + 1 = 0)" by (simp only: of_int_eq_iff)
    also have "\<dots> = (n = - 1)" by auto
    finally show ?thesis .
  qed
  show ?thesis
    unfolding port_def assms(1) add js_or_def by (simp add: z)
qed

lemma port_of_NaN:
  assumes "Number_env (env ''FRONTEND_PORT'') = NaN"
  shows "port env = JNum (Fin 8096)"
  by (simp add: port_def assms js_or_def)

lemma port_of_number:
  assumes "env ''FRONTEND_PORT'' = Some s"
    and "StringToNumber s \<noteq> NaN" and "StringToNumber s \<noteq> Fin (- 1)"
  shows "port env = JNum (js_add (StringToNumber s) (Fin 1))"
proof -
  have "num_truthy (js_add (StringToNumber s) (Fin 1))"
  proof (cases "StringToNumber s")
    case NaN
    with assms(2) show ?thesis by simp
  next
    case PInf
    then show ?thesis by simp
  next
    case NInf
    then show ?thesis by simp
  next
    case (Fin q)
    then have "on_grid q" by (rule StringToNumber_grid)
    moreover from Fin assms(3) have "q \<noteq> - 1" by simp
    ultimately have "num_truthy (round_double (q + 1))" by (rule grid_plus_one_truthy)
    with Fin show ?thesis by simp
  qed
  then show ?thesis
    by (simp add: port_def assms(1) Number_env_def js_or_def)
qed

text \<open>
  C1, as the code has it. With \<open>FRONTEND_PORT\<close> not set, or set to a string that
  \<open>Number\<close> converts to NaN, the port is the fallback 8096. With \<open>FRONTEND_PORT\<close> set to a
  string that is not blank and that \<open>Number\<close> converts to a number other than -1, the port
  is that number plus one, the sum taken as the language takes it, in doubles; for an
  integer of magnitude below \<open>2^53\<close> that is the integer plus one. With the number -1 the
  sum is 0, which is falsy, and the port is the fallback 8096.
\<close>

theorem port_resolution:
  "(env ''FRONTEND_PORT'' = None \<longrightarrow> port env = JNum (Fin 8096))
   \<and> (env ''FRONTEND_PORT'' = Some s \<and> StringToNumber s = NaN
        \<longrightarrow> port env = JNum (Fin 8096))
   \<and> (env ''FRONTEND_PORT'' = Some s \<and> StringToNumber s = Fin (- 1)
        \<longrightarrow> port env = JNum (Fin 8096))
   \<and> (env ''FRONTEND_PORT'' = Some s \<and> trim s \<noteq> []
        \<and> StringToNumber s \<noteq> NaN \<and> StringToNumber s \<noteq> Fin (- 1)
        \<longrightarrow> port env = JNum (js_add (StringToNumber s) (Fin 1)))
   \<and> (env ''FRONTEND_PORT'' = Some s \<and> trim s \<noteq> []
        \<and> StringToNumber s = Fin (of_int n) \<and> \<bar>n\<bar> < 2 ^ 53 \<and> n \<noteq> - 1
        \<longrightarrow> port env = JNum (Fin (of_int n + 1)))"
proof (intro conjI impI)
  assume "env ''FRONTEND_PORT'' = None"
  then have "Number_env (env ''FRONTEND_PORT'') = NaN" by (simp add: Number_env_def)
  then show "port env = JNum (Fin 8096)" by (rule port_of_NaN)
next
  assume "env ''FRONTEND_PORT'' = Some s \<and> StringToNumber s = NaN"
  then have "Number_env (env ''FRONTEND_PORT'') = NaN" by (simp add: Number_env_def)
  then show "port env = JNum (Fin 8096)" by (rule port_of_NaN)
next
  assume "env ''FRONTEND_PORT'' = Some s \<and> StringToNumber s = Fin (- 1)"
  then have "Number_env (env ''FRONTEND_PORT'') = Fin (of_int (- 1))"
    by (simp add: Number_env_def)
  then show "port env = JNum (Fin 8096)"
    using port_of_integer[of env "- 1"] by simp
next
  assume "env ''FRONTEND_PORT'' = Some s \<and> trim s \<noteq> []
    \<and> StringToNumber s \<noteq> NaN \<and> StringToNumber s \<noteq> Fin (- 1)"
  then show "port env = JNum (js_add (StringToNumber s) (Fin 1))"
    by (simp add: port_of_number)
next
  assume a: "env ''FRONTEND_PORT'' = Some s \<and> trim s \<noteq> []
    \<and> StringToNumber s = Fin (of_int n) \<and> \<bar>n\<bar> < 2 ^ 53 \<and> n \<noteq> - 1"
  then have "Number_env (env ''FRONTEND_PORT'') = Fin (of_int n)"
    by (simp add: Number_env_def)
  with a show "port env = JNum (Fin (of_int n + 1))"
    using port_of_integer[of env n] by simp
qed

theorem port_resolution_witness:
  "port Map.empty = JNum (Fin 8096)
   \<and> StringToNumber ''eighty'' = NaN
   \<and> port [''FRONTEND_PORT'' \<mapsto> ''eighty''] = JNum (Fin 8096)
   \<and> StringToNumber ''-1'' = Fin (- 1)
   \<and> port [''FRONTEND_PORT'' \<mapsto> ''-1''] = JNum (Fin 8096)
   \<and> trim ''0.5'' \<noteq> [] \<and> StringToNumber ''0.5'' = Fin (1 / 2)
   \<and> js_add (Fin (1 / 2)) (Fin 1) = Fin (3 / 2)
   \<and> port [''FRONTEND_PORT'' \<mapsto> ''0.5''] = JNum (Fin (3 / 2))
   \<and> trim ''8095'' \<noteq> [] \<and> StringToNumber ''8095'' = Fin (of_int 8095)
   \<and> \<bar>8095 :: int\<bar> < 2 ^ 53 \<and> (8095 :: int) \<noteq> - 1
   \<and> port [''FRONTEND_PORT'' \<mapsto> ''8095''] = JNum (Fin 8096)
   \<and> trim ([CHR 0xC2, CHR 0xA0] @ ''3000'') \<noteq> []
   \<and> StringToNumber ([CHR 0xC2, CHR 0xA0] @ ''3000'') = Fin (of_int 3000)
   \<and> port [''FRONTEND_PORT'' \<mapsto> [CHR 0xC2, CHR 0xA0] @ ''3000''] = JNum (Fin 3001)"
proof -
  have half: "round_double (1 / 2) = Fin (1 / 2)" by code_simp
  have sum: "round_double (3 / 2) = Fin (3 / 2)" by code_simp
  show ?thesis
    using port_resolution[of Map.empty "''''" 0]
      port_resolution[of "[''FRONTEND_PORT'' \<mapsto> ''eighty'']" "''eighty''" 0]
      port_resolution[of "[''FRONTEND_PORT'' \<mapsto> ''-1'']" "''-1''" 0]
      port_resolution[of "[''FRONTEND_PORT'' \<mapsto> ''0.5'']" "''0.5''" 0]
      port_resolution[of "[''FRONTEND_PORT'' \<mapsto> ''8095'']" "''8095''" 8095]
      port_resolution[of "[''FRONTEND_PORT'' \<mapsto> [CHR 0xC2, CHR 0xA0] @ ''3000'']"
        "[CHR 0xC2, CHR 0xA0] @ ''3000''" 3000]
    by (simp add: half sum parse_defs)
qed

text \<open>
  C1 as stated fails: with \<open>FRONTEND_PORT=-1\<close> the variable is set to a numeric value,
  and the port is 8096, not that value plus one.
\<close>

theorem port_minus_one_counterexample:
  "StringToNumber ''-1'' = Fin (- 1)
   \<and> port [''FRONTEND_PORT'' \<mapsto> ''-1''] \<noteq> JNum (js_add (Fin (- 1)) (Fin 1))
   \<and> port [''FRONTEND_PORT'' \<mapsto> ''-1''] = JNum (Fin 8096)"
  by (simp add: port_def js_or_def parse_defs)

subsection \<open>The options of the bundler middleware\<close>

lemma map_filter_app:
  "List.map_filter f (xs @ ys) = List.map_filter f xs @ List.map_filter f ys"
  by (simp add: List.map_filter_def)

lemma dev_middleware_options_after_listen:
  "List.map_filter dev_middleware_options (after_listen p outcome) = []"
  by (cases outcome) (simp_all add: listen_callback_def)

lemma dev_middlewares_installed:
  "List.map_filter dev_middleware_options (dev_server env publicPath outcome)
     = [devMiddlewareOptions env publicPath]"
  by (simp add: dev_server_def map_filter_app dev_middleware_options_after_listen)

text \<open>
  C5 fails on the code. The script installs one bundler middleware, with the options of
  line 34; they have no \<open>watchOptions\<close> property. The debounce window and the polling
  interval are in the constant \<open>serverOptions\<close>, which no call receives.
\<close>

theorem watch_options_not_passed:
  "List.map_filter dev_middleware_options (dev_server env publicPath outcome)
     = [devMiddlewareOptions env publicPath]
   \<and> own_property (devMiddlewareOptions env publicPath) ''watchOptions'' = None
   \<and> own_property (serverOptions env publicPath) ''watchOptions''
       = Some (JObj [(''aggregateTimeout'', JNum (Fin 300)), (''poll'', JNum (Fin 1000))])"
  by (simp add: dev_middlewares_installed devMiddlewareOptions_def serverOptions_def)

text \<open>
  C9. The options of the installed bundler middleware carry the header
  \<open>Access-Control-Allow-Origin: *\<close>, so every response with which the middleware serves a
  compiled file under the public path has it.
\<close>

theorem assets_carry_cors_header:
  assumes "opts \<in> set (List.map_filter dev_middleware_options (dev_server env publicPath outcome))"
    and "middleware_serve opts compiled path = Some r"
  shows "map_of (headers r) ''Access-Control-Allow-Origin'' = Some (JStr ''*'')"
proof -
  from assms(1) have opts: "opts = devMiddlewareOptions env publicPath"
    by (simp add: dev_middlewares_installed)
  have hs: "option_headers opts = [(''Access-Control-Allow-Origin'', JStr ''*'')]"
    by (simp add: opts option_headers_def devMiddlewareOptions_def)
  from assms(2) show ?thesis
    by (auto simp: middleware_serve_def hs split: option.splits jsval.splits if_splits)
qed

theorem assets_carry_cors_header_witness:
  "devMiddlewareOptions Map.empty (JStr ''/static/'')
     \<in> set (List.map_filter dev_middleware_options
           (dev_server Map.empty (JStr ''/static/'') Listening))
   \<and> middleware_serve (devMiddlewareOptions Map.empty (JStr ''/static/''))
        [''main.js'' \<mapsto> ''bundle''] ''/static/main.js''
       = Some \<lparr>status = 200,
               headers = [(''Access-Control-Allow-Origin'', JStr ''*''),
                          (''Content-Length'', JNum (Fin 6))],
               body = ''bundle''\<rparr>
   \<and> map_of [(''Access-Control-Allow-Origin'', JStr ''*''), (''Content-Length'', JNum (Fin 6))]
        ''Access-Control-Allow-Origin'' = Some (JStr ''*'')"
proof -
  have a: "devMiddlewareOptions Map.empty (JStr ''/static/'')
     \<in> set (List.map_filter dev_middleware_options
           (dev_server Map.empty (JStr ''/static/'') Listening))"
    by (simp add: dev_middlewares_installed)
  have b: "middleware_serve (devMiddlewareOptions Map.empty (JStr ''/static/''))
        [''main.js'' \<mapsto> ''bundle''] ''/static/main.js''
       = Some \<lparr>status = 200,
               headers = [(''Access-Control-Allow-Origin'', JStr ''*''),
                          (''Content-Length'', JNum (Fin 6))],
               body = ''bundle''\<rparr>"
    by (simp add: middleware_serve_def option_headers_def devMiddlewareOptions_def)
  from assets_carry_cors_header[OF a b] a b show ?thesis by simp
qed

subsection \<open>Failure to bind\<close>

text \<open>
  C7. When the bind fails with the error \<open>e\<close>, whether the library hands \<open>e\<close> to the
  callback or emits it as an event, the script has called \<open>listen\<close> once, \<open>e\<close> is the one
  thing written to the standard error stream, and nothing follows: there is no second
  attempt.
\<close>

theorem bind_failure_logged_no_retry:
  assumes "ToBoolean e" and "outcome = CallbackError e \<or> outcome = ErrorEvent e"
  shows "filter is_listen (dev_server env publicPath outcome) = [Listen (port env)]
         \<and> List.map_filter stderr_of (dev_server env publicPath outcome) = [e]
         \<and> (dev_server env publicPath outcome
               = [CreateCompiler, CreateApp,
                  Use (WebpackDevMiddleware (devMiddlewareOptions env publicPath)),
                  Use WebpackHotMiddleware, Listen (port env), ConsoleError e]
             \<or> dev_server env publicPath outcome
               = [CreateCompiler, CreateApp,
                  Use (WebpackDevMiddleware (devMiddlewareOptions env publicPath)),
                  Use WebpackHotMiddleware, Listen (port env), UncaughtError e])"
  using assms by (auto simp: dev_server_def listen_callback_def)

theorem bind_failure_logged_no_retry_witness:
  "ToBoolean (JRef 1)
   \<and> filter is_listen (dev_server Map.empty (JStr ''/static/'') (CallbackError (JRef 1)))
       = [Listen (port Map.empty)]
   \<and> List.map_filter stderr_of (dev_server Map.empty (JStr ''/static/'') (CallbackError (JRef 1)))
       = [JRef 1]
   \<and> filter is_listen (dev_server Map.empty (JStr ''/static/'') (ErrorEvent (JRef 1)))
       = [Listen (port Map.empty)]
   \<and> List.map_filter stderr_of (dev_server Map.empty (JStr ''/static/'') (ErrorEvent (JRef 1)))
       = [JRef 1]"
  using bind_failure_logged_no_retry[of "JRef 1" "CallbackError (JRef 1)" Map.empty "JStr ''/static/''"]
    bind_failure_logged_no_retry[of "JRef 1" "ErrorEvent (JRef 1)" Map.empty "JStr ''/static/''"]
  by simp

section \<open>Properties of the shell entry point\<close>

text \<open>
  C10. With \<open>NODE_ENV\<close> equal to \<open>development\<close> the script announces and runs the
  production build; with any other value, and with the variable not set, it announces
  and runs the development build.
\<close>

theorem run_sh_build_mode:
  "run_sh env =
     (if env ''NODE_ENV'' = Some ''development''
      then [Echo ''running production build'', Run ''npm run docker-prod'']
      else [Echo ''running development build'', Run ''npm run docker-dev''])"
  by (auto simp: run_sh_def expand_def split: option.splits)

section \<open>Properties of the client bootstrap\<close>

lemmas step_defs = initial_state_def new_client_def find_dest_def inject_script_def
  publish_container_def createStore_def error_reporting_def first_render_def subscribe_def
  renderApp_def hydrate_def require_def emit_def

lemma script_constants:
  "client (client_script pg) = JRef (fresh pg)"
  "dest (client_script pg) = app_element pg"
  "store (client_script pg) = JRef (Suc (fresh pg))"
  by (simp_all add: client_script_def step_defs Let_def)

lemma script_accepted:
  "accepted (client_script pg) =
     (if ToBoolean (module_hot pg) \<and> \<not> ToBoolean (DESKTOP pg) \<and> \<not> raven_rejects pg
      then [(''./baseRoute'', RerenderBaseRoute)] else [])"
  by (simp add: client_script_def step_defs Let_def raven_rejects_def)

lemma script_error_handler:
  "error_handler (client_script pg) =
     (if endpoint_configured pg then Some (ravenConfig pg) else None)"
  by (simp add: client_script_def step_defs Let_def endpoint_configured_def)

lemma script_thrown:
  "thrown (client_script pg) =
     (if raven_rejects pg then Some (RavenConfigError (ravenConfig pg)) else None)"
  by (simp add: client_script_def step_defs Let_def raven_rejects_def)

lemma script_trace:
  "trace (client_script pg) =
     [NewApiClient (JRef (fresh pg)), GetElementById ''app'',
      AppendToHead \<lparr>async = True,
                    src = ''http://127.0.0.1:8096/static/main-ce6d544a4ec204f36b27.js''\<rparr>,
      WindowSet ''wrAppContainer'' (app_element pg),
      CreateStore (JRef (fresh pg)) (window_data pg) (JRef (Suc (fresh pg)))]
     @ (if raven_rejects pg then []
        else (if endpoint_configured pg then [RavenInstall (ravenConfig pg)] else [])
          @ (if ToBoolean (PLAYER pg)
             then [Require ''./playerRoutes'',
                   Hydrate (app_tree (JRef (Suc (fresh pg)))
                              [(''routes'', page_modules pg ''./playerRoutes''),
                               (''client'', JRef (fresh pg))]) (app_element pg)]
             else [Hydrate (app_tree (JRef (Suc (fresh pg)))
                              [(''routes'', baseRoute pg), (''client'', JRef (fresh pg))])
                     (app_element pg)])
          @ (if ToBoolean (module_hot pg) \<and> \<not> ToBoolean (DESKTOP pg)
             then [HotAccept ''./baseRoute''] else []))"
  by (auto simp: client_script_def step_defs Let_def raven_rejects_def endpoint_configured_def)

declare run_callback.simps [simp del]

lemma run_callback_constants:
  "client (run_callback cb st) = client st"
  "dest (run_callback cb st) = dest st"
  "store (run_callback cb st) = store st"
  "accepted (run_callback cb st) = accepted st"
  "error_handler (run_callback cb st) = error_handler st"
  "thrown (run_callback cb st) = thrown st"
  by (cases cb; simp add: run_callback.simps step_defs)+

lemma run_callback_trace:
  "trace (run_callback RerenderBaseRoute st) =
     trace st @ [Require ''./baseRoute'',
                 WindowSet ''__isReactDndBackendSetUp'' (JBool False),
                 Hydrate (app_tree (store st)
                            [(''routes'', modules st ''./baseRoute''), (''client'', client st)])
                   (dest st)]"
  by (simp add: run_callback.simps step_defs)

lemma run_callback_flag:
  "isReactDndBackendSetUp (run_callback RerenderBaseRoute st) = JBool False"
  by (simp add: run_callback.simps step_defs)

lemma callbacks_accepted:
  "accepted (foldl (\<lambda>s cb. run_callback cb s) st cbs) = accepted st"
  by (induction cbs arbitrary: st) (simp_all add: run_callback_constants)

lemma notify_accepted: "accepted (notify path v st) = accepted st"
  by (simp add: notify_def callbacks_accepted)

lemma run_snoc: "run pg (ns @ [n]) = notify (fst n) (snd n) (run pg ns)"
  by (simp add: run_def)

lemma run_accepted: "accepted (run pg ns) = accepted (client_script pg)"
  by (induction ns rule: rev_induct) (simp_all add: run_def notify_accepted)

lemma notify_run:
  "notify path v (run pg ns) =
     (if path = ''./baseRoute'' \<and> ToBoolean (module_hot pg) \<and> \<not> ToBoolean (DESKTOP pg)
          \<and> \<not> raven_rejects pg
      then run_callback RerenderBaseRoute
             ((run pg ns)\<lparr>modules := (modules (run pg ns))(path := v)\<rparr>)
      else (run pg ns)\<lparr>modules := (modules (run pg ns))(path := v)\<rparr>)"
  by (simp add: notify_def run_accepted script_accepted)

lemma run_constants:
  "client (run pg ns) = client (client_script pg)
   \<and> dest (run pg ns) = dest (client_script pg)
   \<and> store (run pg ns) = store (client_script pg)
   \<and> error_handler (run pg ns) = error_handler (client_script pg)
   \<and> thrown (run pg ns) = thrown (client_script pg)"
proof (induction ns rule: rev_induct)
  case Nil
  show ?case by (simp add: run_def)
next
  case (snoc n ns)
  then show ?case
    by (simp add: run_snoc notify_run run_callback_constants)
qed

lemma run_desktop:
  assumes "ToBoolean (DESKTOP pg)"
  shows "trace (run pg ns) = trace (client_script pg)"
proof (induction ns rule: rev_induct)
  case Nil
  show ?case by (simp add: run_def)
next
  case (snoc n ns)
  then show ?case using assms by (simp add: run_snoc notify_run)
qed

lemma provider_store_app_tree: "provider_store (app_tree s renderProps) = [Some s]"
  by (simp add: provider_store_def app_tree_def)

lemma script_stores:
  "List.map_filter created_store (trace (client_script pg)) = [store (client_script pg)]
   \<and> list_all (\<lambda>el. provider_store el = [Some (store (client_script pg))])
        (List.map_filter hydrated (trace (client_script pg)))"
  by (simp add: script_trace script_constants map_filter_app provider_store_app_tree)

lemma run_raven:
  "List.map_filter raven_installed (trace (run pg ns))
     = List.map_filter raven_installed (trace (client_script pg))"
proof (induction ns rule: rev_induct)
  case Nil
  show ?case by (simp add: run_def)
next
  case (snoc n ns)
  then show ?case
    by (simp add: run_snoc notify_run run_callback_trace map_filter_app)
qed

subsection \<open>Hot reload of the route definitions\<close>

text \<open>
  C2. The subscription is active when the live-update channel is there, the build is not
  the desktop one, and the script has run to its last statement, which it does unless the
  error reporting library rejects the configured value. Then a change notification for
  \<open>./baseRoute\<close>, after the script and any earlier notifications, makes the callback
  resolve the module again, set \<open>window.__isReactDndBackendSetUp\<close> to false, and then
  render once, with the newly resolved exports as \<open>routes\<close>; it does nothing else.
\<close>

theorem route_change_rerenders_once:
  assumes "ToBoolean (module_hot pg)" and "\<not> ToBoolean (DESKTOP pg)"
    and "\<not> raven_rejects pg"
  shows "trace (notify ''./baseRoute'' nextRoutes (run pg ns)) =
           trace (run pg ns)
           @ [Require ''./baseRoute'',
              WindowSet ''__isReactDndBackendSetUp'' (JBool False),
              Hydrate (app_tree (store (client_script pg))
                         [(''routes'', nextRoutes), (''client'', client (client_script pg))])
                (app_element pg)]
         \<and> isReactDndBackendSetUp (notify ''./baseRoute'' nextRoutes (run pg ns)) = JBool False
         \<and> root_props (app_tree (store (client_script pg))
                          [(''routes'', nextRoutes), (''client'', client (client_script pg))])
             = [[(''store'', store (client_script pg)), (''routes'', nextRoutes),
                 (''client'', client (client_script pg))]]"
  using assms
  by (simp add: notify_run run_callback_trace run_callback_flag run_constants
      script_constants root_props_def app_tree_def spread_def)

theorem route_change_rerenders_once_witness:
  "ToBoolean (module_hot example_page) \<and> \<not> ToBoolean (DESKTOP example_page)
   \<and> \<not> raven_rejects example_page
   \<and> trace (notify ''./baseRoute'' (JRef 4) (run example_page [])) =
       [NewApiClient (JRef 10), GetElementById ''app'',
        AppendToHead \<lparr>async = True,
                      src = ''http://127.0.0.1:8096/static/main-ce6d544a4ec204f36b27.js''\<rparr>,
        WindowSet ''wrAppContainer'' (JRef 0),
        CreateStore (JRef 10) Undefined (JRef 11),
        Hydrate (app_tree (JRef 11) [(''routes'', JRef 2), (''client'', JRef 10)]) (JRef 0),
        HotAccept ''./baseRoute'',
        Require ''./baseRoute'',
        WindowSet ''__isReactDndBackendSetUp'' (JBool False),
        Hydrate (app_tree (JRef 11) [(''routes'', JRef 4), (''client'', JRef 10)]) (JRef 0)]"
  using route_change_rerenders_once[of example_page "JRef 4" "[]"]
  by (simp add: example_page_def run_def script_trace script_constants raven_rejects_def
      endpoint_configured_def)

text \<open>
  C3. In a desktop build the script subscribes to nothing, whether \<open>module.hot\<close> is there
  or not, and no notification makes it render again.
\<close>

theorem desktop_no_subscription:
  assumes "ToBoolean (DESKTOP pg)"
  shows "accepted (client_script pg) = []
         \<and> List.map_filter hot_accepted (trace (client_script pg)) = []
         \<and> accepted (run pg ns) = []
         \<and> trace (run pg ns) = trace (client_script pg)"
  using assms
  by (simp add: run_desktop run_accepted script_accepted script_trace map_filter_app)

theorem desktop_no_subscription_witness:
  "ToBoolean (DESKTOP (example_page\<lparr>DESKTOP := JBool True\<rparr>))
   \<and> ToBoolean (module_hot (example_page\<lparr>DESKTOP := JBool True\<rparr>))
   \<and> accepted (client_script (example_page\<lparr>DESKTOP := JBool True\<rparr>)) = []
   \<and> accepted (run (example_page\<lparr>DESKTOP := JBool True\<rparr>) [(''./baseRoute'', JRef 4)]) = []
   \<and> trace (run (example_page\<lparr>DESKTOP := JBool True\<rparr>) [(''./baseRoute'', JRef 4)]) =
       [NewApiClient (JRef 10), GetElementById ''app'',
        AppendToHead \<lparr>async = True,
                      src = ''http://127.0.0.1:8096/static/main-ce6d544a4ec204f36b27.js''\<rparr>,
        WindowSet ''wrAppContainer'' (JRef 0),
        CreateStore (JRef 10) Undefined (JRef 11),
        Hydrate (app_tree (JRef 11) [(''routes'', JRef 2), (''client'', JRef 10)]) (JRef 0)]"
  using desktop_no_subscription[of "example_page\<lparr>DESKTOP := JBool True\<rparr>"
      "[(''./baseRoute'', JRef 4)]"]
  by (simp add: example_page_def script_trace raven_rejects_def endpoint_configured_def)

text \<open>
  C4, as the code has it. The store is constructed once, when the script runs; every
  render, the first and the ones that change notifications trigger, hands that same store
  to the \<open>Provider\<close>.
\<close>

theorem store_kept_across_hot_reload:
  "List.map_filter created_store (trace (run pg ns)) = [store (client_script pg)]
   \<and> list_all (\<lambda>el. provider_store el = [Some (store (client_script pg))])
        (List.map_filter hydrated (trace (run pg ns)))
   \<and> store (run pg ns) = store (client_script pg)"
proof (induction ns rule: rev_induct)
  case Nil
  show ?case using script_stores[of pg] by (simp add: run_def)
next
  case (snoc n ns)
  then show ?case
    by (simp add: run_snoc notify_run run_callback_trace run_callback_constants
        map_filter_app provider_store_app_tree)
qed

text \<open>
  C4 as stated fails: after a change notification for \<open>./baseRoute\<close> on the example page
  there has been one \<open>createStore\<close> call, and the two renders received the same store.
\<close>

theorem store_replaced_counterexample:
  "List.map_filter created_store (trace (run example_page [(''./baseRoute'', JRef 4)])) = [JRef 11]
   \<and> map provider_store
        (List.map_filter hydrated (trace (run example_page [(''./baseRoute'', JRef 4)])))
       = [[Some (JRef 11)], [Some (JRef 11)]]
   \<and> store (run example_page [(''./baseRoute'', JRef 4)]) = store (client_script example_page)"
proof -
  have r: "run example_page [(''./baseRoute'', JRef 4)]
             = notify ''./baseRoute'' (JRef 4) (run example_page [])"
    by (simp add: run_def)
  have hot: "ToBoolean (module_hot example_page) \<and> \<not> ToBoolean (DESKTOP example_page)
      \<and> \<not> raven_rejects example_page"
    by (simp add: example_page_def raven_rejects_def)
  have n: "notify ''./baseRoute'' (JRef 4) (run example_page [])
             = run_callback RerenderBaseRoute
                 ((run example_page [])
                    \<lparr>modules := (modules (run example_page []))(''./baseRoute'' := JRef 4)\<rparr>)"
    using hot by (simp only: notify_run) simp
  show ?thesis
    unfolding r n
    by (simp add: run_callback_trace run_callback_constants run_def script_trace
        script_constants map_filter_app provider_store_app_tree example_page_def
        raven_rejects_def endpoint_configured_def)
qed

subsection \<open>Error reporting\<close>

text \<open>
  C6. The handler for uncaught errors is installed exactly when an endpoint is
  configured, that is when \<open>config.ravenConfig\<close> is truthy and the library takes it as a
  DSN, and it stays so through any change notifications. With none configured
  (\<open>config.ravenConfig\<close> falsy) nothing is installed and an uncaught error is left to the
  browser. The same holds for a truthy value that is no DSN: the library throws, no
  handler is installed, and the script ends there.
\<close>

theorem error_handler_iff_configured:
  "(error_handler (run pg ns) \<noteq> None) = endpoint_configured pg
   \<and> List.map_filter raven_installed (trace (run pg ns))
       = (if endpoint_configured pg then [ravenConfig pg] else [])
   \<and> uncaught (run pg ns) e
       = (if endpoint_configured pg then Reported (ravenConfig pg) e else BrowserDefault e)
   \<and> thrown (run pg ns)
       = (if raven_rejects pg then Some (RavenConfigError (ravenConfig pg)) else None)
   \<and> endpoint_configured pg = (ToBoolean (ravenConfig pg) \<and> \<not> raven_rejects pg)"
  by (auto simp: run_constants script_error_handler script_thrown run_raven script_trace
      map_filter_app uncaught_def endpoint_configured_def raven_rejects_def)

theorem error_handler_iff_configured_witness:
  "\<not> endpoint_configured example_page
   \<and> error_handler (run example_page [(''./baseRoute'', JRef 4)]) = None
   \<and> uncaught (run example_page [(''./baseRoute'', JRef 4)]) (JRef 5) = BrowserDefault (JRef 5)
   \<and> endpoint_configured (example_page\<lparr>ravenConfig := JStr ''https://key@sentry.example.org/1''\<rparr>)
   \<and> error_handler (run (example_page\<lparr>ravenConfig := JStr ''https://key@sentry.example.org/1''\<rparr>) [])
       \<noteq> None
   \<and> uncaught (run (example_page\<lparr>ravenConfig := JStr ''https://key@sentry.example.org/1''\<rparr>) [])
        (JRef 5) = Reported (JStr ''https://key@sentry.example.org/1'') (JRef 5)
   \<and> raven_rejects (example_page\<lparr>ravenConfig := JStr ''not-a-dsn''\<rparr>)
   \<and> error_handler (run (example_page\<lparr>ravenConfig := JStr ''not-a-dsn''\<rparr>) []) = None
   \<and> thrown (run (example_page\<lparr>ravenConfig := JStr ''not-a-dsn''\<rparr>) [])
       = Some (RavenConfigError (JStr ''not-a-dsn''))
   \<and> uncaught (run (example_page\<lparr>ravenConfig := JStr ''not-a-dsn''\<rparr>) []) (JRef 5)
       = BrowserDefault (JRef 5)"
  using error_handler_iff_configured[of example_page "[(''./baseRoute'', JRef 4)]" "JRef 5"]
    error_handler_iff_configured[of
      "example_page\<lparr>ravenConfig := JStr ''https://key@sentry.example.org/1''\<rparr>" "[]" "JRef 5"]
    error_handler_iff_configured[of "example_page\<lparr>ravenConfig := JStr ''not-a-dsn''\<rparr>" "[]"
      "JRef 5"]
  by (simp add: example_page_def endpoint_configured_def raven_rejects_def split: if_splits)

subsection \<open>Rendering twice\<close>

text \<open>
  C8. A second \<open>renderApp\<close> with the same \<open>renderProps\<close> leaves what is rendered under
  every container as the first call left it, and under the mount element that is the
  tree of the element built from the store and those props.
\<close>

theorem renderApp_idempotent:
  "rendered (renderApp renderProps (renderApp renderProps st))
     = rendered (renderApp renderProps st)
   \<and> rendered (renderApp renderProps st) (dest st) = Some (app_tree (store st) renderProps)"
  by (simp add: renderApp_def hydrate_def emit_def)

end
